theory Spec2Isabelle
  imports Complex_Main "HOL-Library.Product_Lexorder" "HOL-Library.Sublist" "HOL-Library.AList"
begin

section \<open>Conversation memory (services/memory\_service.py)\<close>

text \<open>
  A conversation turn is the pair (question, answer).  The class \<^verbatim>\<open>ConversationMemory\<close>
  holds a dictionary from session ids to lists of turns and the bound \<^verbatim>\<open>max_history\<close>.
  Methods that mutate \<^verbatim>\<open>self\<close> return the new object; \<^verbatim>\<open>get_history\<close> returns its
  result together with the (unchanged) object.
\<close>

type_synonym turn = "string \<times> string"

record ConversationMemory =
  conversations :: "string \<rightharpoonup> turn list"
  max_history :: int

text \<open>\<^verbatim>\<open>__init__(self, max_history=10)\<close>\<close>

definition new_ConversationMemory :: "int \<Rightarrow> ConversationMemory" where
  "new_ConversationMemory m = \<lparr>conversations = Map.empty, max_history = m\<rparr>"

text \<open>\<^verbatim>\<open>get_memory_service()\<close> creates the singleton with \<^verbatim>\<open>max_history=10\<close>.\<close>

definition get_memory_service :: ConversationMemory where
  "get_memory_service = new_ConversationMemory 10"

text \<open>
  The Python slice \<^verbatim>\<open>xs[k:]\<close> for an integer \<^verbatim>\<open>k\<close>: a negative start counts from the
  end and is clamped at the front of the list.
\<close>

definition slice_from :: "int \<Rightarrow> 'a list \<Rightarrow> 'a list" where
  "slice_from k xs =
     (if k < 0 then drop (nat (max 0 (int (length xs) + k))) xs else drop (nat k) xs)"

definition add_message :: "ConversationMemory \<Rightarrow> string \<Rightarrow> string \<Rightarrow> string \<Rightarrow> ConversationMemory" where
  "add_message mem session_id question answer =
     (let convs0 = conversations mem;
          convs1 = (case convs0 session_id of
                      None \<Rightarrow> convs0(session_id \<mapsto> [])
                    | Some _ \<Rightarrow> convs0);
          h = (case convs1 session_id of None \<Rightarrow> [] | Some h0 \<Rightarrow> h0) @ [(question, answer)];
          convs2 = convs1(session_id \<mapsto> h);
          convs3 = (if int (length h) > max_history mem
                    then convs2(session_id \<mapsto> slice_from (- max_history mem) h)
                    else convs2)
      in mem\<lparr>conversations := convs3\<rparr>)"

definition get_history :: "ConversationMemory \<Rightarrow> string \<Rightarrow> turn list \<times> ConversationMemory" where
  "get_history mem session_id =
     ((case conversations mem session_id of None \<Rightarrow> [] | Some h \<Rightarrow> h), mem)"

definition clear_session :: "ConversationMemory \<Rightarrow> string \<Rightarrow> ConversationMemory" where
  "clear_session mem session_id =
     (case conversations mem session_id of
        None \<Rightarrow> mem
      | Some _ \<Rightarrow> mem\<lparr>conversations := (conversations mem)(session_id := None)\<rparr>)"

text \<open>A sequence of \<^verbatim>\<open>add_message(session_id, question, answer)\<close> calls, run in order.\<close>

fun add_messages :: "ConversationMemory \<Rightarrow> (string \<times> string \<times> string) list \<Rightarrow> ConversationMemory" where
  "add_messages mem [] = mem"
| "add_messages mem ((sid, q, a) # calls) = add_messages (add_message mem sid q a) calls"

text \<open>The turns that a sequence of calls sends to one session, oldest first.\<close>

definition turns_of :: "string \<Rightarrow> (string \<times> string \<times> string) list \<Rightarrow> turn list" where
  "turns_of sid calls = map snd (filter (\<lambda>c. fst c = sid) calls)"

text \<open>The most recent \<open>n\<close> elements of a list, in their order.\<close>

definition most_recent :: "nat \<Rightarrow> 'a list \<Rightarrow> 'a list" where
  "most_recent n xs = drop (length xs - n) xs"


section \<open>Python strings and exceptions\<close>

text \<open>
  A Python \<^verbatim>\<open>str\<close> is modelled as a HOL \<^typ>\<open>string\<close>.  For ASCII text this is the text
  itself; the Vietnamese keywords of the source are written as their UTF-8 bytes.  The
  character functions below are the ASCII tables of CPython: \<^verbatim>\<open>str.lower\<close> maps
  \<^verbatim>\<open>A-Z\<close> to \<^verbatim>\<open>a-z\<close>, whitespace is \<^verbatim>\<open>\t \n \v \f \r\<close>, \<^verbatim>\<open>0x1c-0x1f\<close> and the
  blank, a decimal digit is \<^verbatim>\<open>0-9\<close>, and a word character is a letter, a digit or the
  underscore.  Bytes from 128 up, which only occur inside non-ASCII letters here, are
  left alone by \<open>lower\<close>, are no whitespace and count as word characters.  On ASCII
  input every function agrees with Python; \<^const>\<open>length\<close> counts bytes, which is Python's
  \<^verbatim>\<open>len\<close> on ASCII text.
\<close>

datatype error =
    ValueError | TypeError | AttributeError | IndexError | KeyError
  | JSONDecodeError | RemoteError string

definition upper_chars :: string where
  "upper_chars = ''ABCDEFGHIJKLMNOPQRSTUVWXYZ''"

definition lower_chars :: string where
  "lower_chars = ''abcdefghijklmnopqrstuvwxyz''"

definition digit_chars :: string where
  "digit_chars = ''0123456789''"

definition lower_char :: "char \<Rightarrow> char" where
  "lower_char c = (case map_of (zip upper_chars lower_chars) c of None \<Rightarrow> c | Some d \<Rightarrow> d)"

text \<open>\<^verbatim>\<open>s.lower()\<close>\<close>

definition lower :: "string \<Rightarrow> string" where
  "lower s = map lower_char s"

definition newline :: char where
  "newline = CHR 0x0A"

definition is_space :: "char \<Rightarrow> bool" where
  "is_space c \<longleftrightarrow> c \<in> set [CHR 0x09, CHR 0x0A, CHR 0x0B, CHR 0x0C, CHR 0x0D,
                            CHR 0x1C, CHR 0x1D, CHR 0x1E, CHR 0x1F, CHR 0x20]"

definition is_digit :: "char \<Rightarrow> bool" where
  "is_digit c \<longleftrightarrow> c \<in> set digit_chars"

definition is_word :: "char \<Rightarrow> bool" where
  "is_word c \<longleftrightarrow> c \<in> set lower_chars \<or> c \<in> set upper_chars \<or> c \<in> set digit_chars
                 \<or> c = CHR ''_'' \<or> (128::nat) \<le> of_char c"

text \<open>\<^verbatim>\<open>k in s\<close> for two strings: \<open>k\<close> occurs in \<open>s\<close> as a contiguous substring.\<close>

fun str_in :: "string \<Rightarrow> string \<Rightarrow> bool" where
  "str_in k [] = (k = [])"
| "str_in k (c # cs) = (prefix k (c # cs) \<or> str_in k cs)"

text \<open>\<^verbatim>\<open>s.strip()\<close>\<close>

definition strip :: "string \<Rightarrow> string" where
  "strip s = rev (dropWhile is_space (rev (dropWhile is_space s)))"



text \<open>
  \<^verbatim>\<open>s.split(sep)\<close> for a non-empty separator: the pieces between the non-overlapping
  occurrences of \<open>sep\<close>, found from the left; empty pieces are kept.  The second argument
  is the current piece, reversed; the third counts the characters of a separator that
  are still to be skipped.
\<close>

fun split_from :: "string \<Rightarrow> string \<Rightarrow> nat \<Rightarrow> string \<Rightarrow> string list" where
  "split_from sep cur skip [] = [rev cur]"
| "split_from sep cur skip (c # cs) =
     (if 0 < skip then split_from sep cur (skip - 1) cs
      else if prefix sep (c # cs) then rev cur # split_from sep [] (length sep - 1) cs
      else split_from sep (c # cur) 0 cs)"

definition split :: "string \<Rightarrow> string \<Rightarrow> string list" where
  "split s sep = split_from sep [] 0 s"

text \<open>
  \<^verbatim>\<open>", ".join(xs)\<close> and friends.
\<close>

fun join :: "string \<Rightarrow> string list \<Rightarrow> string" where
  "join sep [] = []"
| "join sep [x] = x"
| "join sep (x # y # ys) = x @ sep @ join sep (y # ys)"

text \<open>
  \<^verbatim>\<open>int(s)\<close> on a non-empty string of decimal digits, the only strings this program
  passes to it.  Any other string is answered with \<^verbatim>\<open>ValueError\<close> (Python would also
  accept a sign, surrounding whitespace and underscores).
\<close>

definition digit_value :: "char \<Rightarrow> nat" where
  "digit_value c = of_char c - 48"

definition py_int :: "string \<Rightarrow> error + nat" where
  "py_int s =
     (if s \<noteq> [] \<and> list_all is_digit s
      then Inr (foldl (\<lambda>n c. 10 * n + digit_value c) 0 s)
      else Inl ValueError)"




section \<open>Regular expressions (the fragment of Python's \<^verbatim>\<open>re\<close> that the program uses)\<close>

text \<open>
  The patterns of the program are built from single characters and character classes
  (\<^verbatim>\<open>\s\<close>, \<^verbatim>\<open>\d\<close>, \<^verbatim>\<open>.\<close>, \<^verbatim>\<open>[^...]\<close>), the assertions \<^verbatim>\<open>\b\<close> and \<^verbatim>\<open>$\<close>, sequence,
  alternation, optional parts, capture groups, and the repetitions \<^verbatim>\<open>*\<close>, \<^verbatim>\<open>+\<close> and
  \<^verbatim>\<open>+?\<close>, which are only ever applied to a single character or class.
\<close>

datatype cclass =
    Lit char                 \<comment> \<open>the character itself\<close>
  | Space                    \<comment> \<open>\<^verbatim>\<open>\s\<close>\<close>
  | Digit                    \<comment> \<open>\<^verbatim>\<open>\d\<close>\<close>
  | Dot                      \<comment> \<open>\<^verbatim>\<open>.\<close>: any character but the newline\<close>
  | NoneOf "char list"       \<comment> \<open>\<^verbatim>\<open>[^...]\<close>\<close>

fun in_class :: "cclass \<Rightarrow> char \<Rightarrow> bool" where
  "in_class (Lit a) c = (c = a)"
| "in_class Space c = is_space c"
| "in_class Digit c = is_digit c"
| "in_class Dot c = (c \<noteq> newline)"
| "in_class (NoneOf cs) c = (c \<notin> set cs)"

datatype regex =
    Eps                      \<comment> \<open>the empty pattern\<close>
  | One cclass               \<comment> \<open>one character of the class\<close>
  | WordB                    \<comment> \<open>\<^verbatim>\<open>\b\<close>\<close>
  | Eos                      \<comment> \<open>\<^verbatim>\<open>$\<close> (no \<^verbatim>\<open>MULTILINE\<close> flag)\<close>
  | Seq regex regex
  | Alt regex regex          \<comment> \<open>\<^verbatim>\<open>r1|r2\<close>\<close>
  | Opt regex                \<comment> \<open>\<^verbatim>\<open>r?\<close>\<close>
  | Star cclass              \<comment> \<open>\<^verbatim>\<open>x*\<close>\<close>
  | Plus cclass              \<comment> \<open>\<^verbatim>\<open>x+\<close>\<close>
  | LazyPlus cclass          \<comment> \<open>\<^verbatim>\<open>x+?\<close>\<close>
  | Group nat regex          \<comment> \<open>capture group number \<open>n\<close>\<close>

text \<open>A literal string, a sequence of patterns and an alternation of patterns.\<close>

definition lit :: "string \<Rightarrow> regex" where
  "lit s = foldr (\<lambda>c r. Seq (One (Lit c)) r) s Eps"

definition seqs :: "regex list \<Rightarrow> regex" where
  "seqs rs = foldr Seq rs Eps"

fun alts :: "regex list \<Rightarrow> regex" where
  "alts [] = Eps"
| "alts [r] = r"
| "alts (r # rs) = Alt r (alts rs)"

text \<open>
  The backtracking matcher.  A position in the subject is the character before it (if
  any) and the text from it on.  \<open>matches r prev rest gs\<close> lists every way in which \<open>r\<close>
  matches at the position, as the matched text, the text after it and the capture
  groups, in the order in which the backtracking engine tries them: the left
  alternative first, a greedy repetition longest first, a lazy one shortest first.  The
  first entry is the match that Python reports.
\<close>

type_synonym groups = "(nat \<times> string) list"

fun takes :: "cclass \<Rightarrow> string \<Rightarrow> (string \<times> string) list" where
  "takes k [] = [([], [])]"
| "takes k (c # cs) =
     (if in_class k c then map (\<lambda>(m, r). (c # m, r)) (takes k cs) @ [([], c # cs)]
      else [([], c # cs)])"

definition prev_after :: "char option \<Rightarrow> string \<Rightarrow> char option" where
  "prev_after prev m = (if m = [] then prev else Some (last m))"

definition word_at :: "char option \<Rightarrow> bool" where
  "word_at c = (case c of None \<Rightarrow> False | Some x \<Rightarrow> is_word x)"

definition next_char :: "string \<Rightarrow> char option" where
  "next_char rest = (case rest of [] \<Rightarrow> None | c # _ \<Rightarrow> Some c)"

fun matches :: "regex \<Rightarrow> char option \<Rightarrow> string \<Rightarrow> groups \<Rightarrow> (string \<times> string \<times> groups) list" where
  "matches Eps prev rest gs = [([], rest, gs)]"
| "matches (One k) prev rest gs =
     (case rest of [] \<Rightarrow> [] | c # cs \<Rightarrow> if in_class k c then [([c], cs, gs)] else [])"
| "matches WordB prev rest gs =
     (if word_at prev \<noteq> word_at (next_char rest) then [([], rest, gs)] else [])"
| "matches Eos prev rest gs =
     (if rest = [] \<or> rest = [newline] then [([], rest, gs)] else [])"
| "matches (Seq r1 r2) prev rest gs =
     concat (map (\<lambda>(m1, rest1, gs1).
                    map (\<lambda>(m2, rest2, gs2). (m1 @ m2, rest2, gs2))
                      (matches r2 (prev_after prev m1) rest1 gs1))
               (matches r1 prev rest gs))"
| "matches (Alt r1 r2) prev rest gs = matches r1 prev rest gs @ matches r2 prev rest gs"
| "matches (Opt r) prev rest gs = matches r prev rest gs @ [([], rest, gs)]"
| "matches (Star k) prev rest gs = map (\<lambda>(m, r). (m, r, gs)) (takes k rest)"
| "matches (Plus k) prev rest gs =
     map (\<lambda>(m, r). (m, r, gs)) (filter (\<lambda>(m, r). m \<noteq> []) (takes k rest))"
| "matches (LazyPlus k) prev rest gs =
     map (\<lambda>(m, r). (m, r, gs)) (rev (filter (\<lambda>(m, r). m \<noteq> []) (takes k rest)))"
| "matches (Group n r) prev rest gs =
     map (\<lambda>(m, rest', gs'). (m, rest', (n, m) # gs')) (matches r prev rest gs)"

text \<open>\<^verbatim>\<open>match.group(n)\<close>; \<open>None\<close> when the group took no part in the match.\<close>

definition group :: "groups \<Rightarrow> nat \<Rightarrow> string option" where
  "group gs n = map_of gs n"

text \<open>
  \<^verbatim>\<open>re.search(pattern, s)\<close>: the first match at the leftmost position that has one, as
  (matched text, text after the match, groups).
\<close>

fun search_from :: "regex \<Rightarrow> char option \<Rightarrow> string \<Rightarrow> (string \<times> string \<times> groups) option" where
  "search_from r prev [] = (case matches r prev [] [] of [] \<Rightarrow> None | x # _ \<Rightarrow> Some x)"
| "search_from r prev (c # cs) =
     (case matches r prev (c # cs) [] of
        [] \<Rightarrow> search_from r (Some c) cs
      | x # _ \<Rightarrow> Some x)"

definition re_search :: "regex \<Rightarrow> string \<Rightarrow> (string \<times> string \<times> groups) option" where
  "re_search r s = search_from r None s"

text \<open>
  \<^verbatim>\<open>re.findall(pattern, s)\<close> for a pattern with one capture group: the text of group 1
  of each match (empty if the group took no part), for the non-overlapping matches from
  the left.  The number counts the characters of the last match that are still to be
  passed over; after an empty match the scan goes on with the next character.
\<close>

definition group1 :: "groups \<Rightarrow> string" where
  "group1 gs = (case group gs 1 of None \<Rightarrow> [] | Some g \<Rightarrow> g)"





text \<open>A pattern without capture groups.\<close>

fun group_free :: "regex \<Rightarrow> bool" where
  "group_free (Seq r1 r2) = (group_free r1 \<and> group_free r2)"
| "group_free (Alt r1 r2) = (group_free r1 \<and> group_free r2)"
| "group_free (Opt r) = group_free r"
| "group_free (Group n r) = False"
| "group_free r = True"


section \<open>Candidates, exclusion and re-ranking (services/langchain\_service.py)\<close>

text \<open>
  A search result of the vector store carries a payload, a dictionary from field names
  to values, which may be missing or empty, and a similarity score.  Payload values are
  modelled as strings and the score as a real number.
\<close>

record search_result =
  payload :: "(string \<times> string) list option"
  score :: real

text \<open>\<^verbatim>\<open>payload.get(key, default)\<close>\<close>

definition dict_get :: "(string \<times> string) list \<Rightarrow> string \<Rightarrow> string \<Rightarrow> string" where
  "dict_get d key dflt = (case map_of d key of None \<Rightarrow> dflt | Some v \<Rightarrow> v)"

text \<open>
  An entry of \<^verbatim>\<open>context\<close>: the dictionary built in \<^verbatim>\<open>get_recommendation\<close> with the fixed
  keys title, description, genre, year, type, rating, cast, country and score.
\<close>

record item =
  title :: string
  description :: string
  genre :: string
  year :: string
  type :: string
  rating :: string
  cast :: string
  country :: string
  item_score :: real

definition context_entry :: "(string \<times> string) list \<Rightarrow> string \<Rightarrow> real \<Rightarrow> item" where
  "context_entry pl ttl sc =
     \<lparr>title = ttl,
      description = dict_get pl ''description'' ''No description available'',
      genre = dict_get pl ''genre'' '''',
      year = dict_get pl ''year'' '''',
      type = dict_get pl ''type'' ''Unknown'',
      rating = dict_get pl ''rating'' '''',
      cast = dict_get pl ''cast'' '''',
      country = dict_get pl ''country'' '''',
      item_score = sc\<rparr>"

text \<open>
  The first loop over the search results (source lines 316-341): results without payload
  are skipped, results whose lower-cased title is in \<^verbatim>\<open>excluded_titles\<close> are skipped, all
  others are appended to \<^verbatim>\<open>context\<close>.  The counter \<^verbatim>\<open>skipped_count\<close> is only logged.
\<close>

fun format_context :: "string set \<Rightarrow> search_result list \<Rightarrow> item list" where
  "format_context excluded_titles [] = []"
| "format_context excluded_titles (result # results) =
     (case payload result of
        None \<Rightarrow> format_context excluded_titles results
      | Some pl \<Rightarrow>
          if pl = [] then format_context excluded_titles results
          else let ttl = dict_get pl ''title'' ''Unknown'' in
            if lower ttl \<in> excluded_titles then format_context excluded_titles results
            else context_entry pl ttl (score result) # format_context excluded_titles results)"

text \<open>
  The loops that merge the results of the additional and of the broader search into
  \<^verbatim>\<open>context\<close> (source lines 411-434 and 450-473, the same body): they stop once
  \<^verbatim>\<open>context\<close> has five entries, skip results without payload, excluded titles and titles
  that \<^verbatim>\<open>context\<close> already has, and append the others.
\<close>

fun merge_results :: "string set \<Rightarrow> item list \<Rightarrow> search_result list \<Rightarrow> item list" where
  "merge_results excluded_titles context [] = context"
| "merge_results excluded_titles context (result # results) =
     (if 5 \<le> length context then context
      else case payload result of
        None \<Rightarrow> merge_results excluded_titles context results
      | Some pl \<Rightarrow>
          if pl = [] then merge_results excluded_titles context results
          else let ttl = dict_get pl ''title'' ''Unknown'' in
            if lower ttl \<in> excluded_titles then merge_results excluded_titles context results
            else if list_ex (\<lambda>c. lower (title c) = lower ttl) context
              then merge_results excluded_titles context results
            else merge_results excluded_titles (context @ [context_entry pl ttl (score result)]) results)"

text \<open>
  The user profile: the dictionary stored with a user.  A missing key is the empty list
  or the empty string.  \<^verbatim>\<open>user_profile\<close> is \<open>None\<close> when there is no profile (or an empty
  dictionary, which Python also takes for false).
\<close>

record user_profile =
  preferences :: string
  favorite_genres :: "string list"
  disliked_genres :: "string list"
  favorite_actors :: "string list"
  watch_style :: string
  mood_preference :: string
  recently_watched :: "string list"
  watching_with :: string
  time_available :: string
  language_preference :: string

text \<open>\<^verbatim>\<open>[g.lower() for g in xs if g]\<close>\<close>

definition lowered_nonempty :: "string list \<Rightarrow> string list" where
  "lowered_nonempty xs = map lower (filter (\<lambda>g. g \<noteq> []) xs)"

text \<open>
  The sort key \<^verbatim>\<open>comprehensive_match_score\<close>.  The closure variables
  \<^verbatim>\<open>favorite_genres\<close>, \<^verbatim>\<open>favorite_actors\<close> and \<^verbatim>\<open>language_prefs\<close> are parameters.  The
  tuple is compared lexicographically; \<^verbatim>\<open>country_match\<close> is \<^verbatim>\<open>0\<close> or a boolean, which
  Python compares as 0 and 1.
\<close>

type_synonym match_score = "bool \<times> nat \<times> bool \<times> nat \<times> bool \<times> real"

definition country_match_of :: "string \<Rightarrow> string \<Rightarrow> bool" where
  "country_match_of language_prefs country_str =
     (if language_prefs \<noteq> []
      then list_ex (\<lambda>country. str_in (strip country) country_str \<or> str_in country_str (strip country))
             (filter (\<lambda>country. strip country \<noteq> []) (split language_prefs '',''))
      else False)"

definition comprehensive_match_score ::
  "string list \<Rightarrow> string list \<Rightarrow> string \<Rightarrow> item \<Rightarrow> match_score" where
  "comprehensive_match_score fav_genres fav_actors language_prefs it =
     (let genre_str = lower (genre it);
          cast_str = lower (cast it);
          country_str = lower (country it);
          genre_matches = length (filter (\<lambda>fav. str_in fav genre_str) fav_genres);
          actor_matches = length (filter (\<lambda>actor. str_in actor cast_str) fav_actors);
          country_match = country_match_of language_prefs country_str
      in (0 < genre_matches, genre_matches, 0 < actor_matches, actor_matches,
          country_match, item_score it))"

text \<open>
  \<^verbatim>\<open>xs.sort(key=k, reverse=True)\<close>: CPython reverses the list, sorts it stably in
  ascending key order and reverses it again, so that elements with equal keys keep
  their order.
\<close>

definition sort_reverse :: "('a \<Rightarrow> 'k::linorder) \<Rightarrow> 'a list \<Rightarrow> 'a list" where
  "sort_reverse k xs = rev (sort_key k (rev xs))"

text \<open>
  The block ``Filter out disliked genres'': with a non-empty list of (lower-cased,
  non-empty) disliked genres, an entry stays only if none of them occurs in its
  lower-cased genre field.
\<close>

definition drop_disliked :: "string list \<Rightarrow> item list \<Rightarrow> item list" where
  "drop_disliked dis_genres context =
     (if dis_genres \<noteq> []
      then filter (\<lambda>c. \<not> list_ex (\<lambda>disliked. str_in disliked (lower (genre c))) dis_genres) context
      else context)"

text \<open>
  The sort key as \<^verbatim>\<open>get_recommendation\<close> builds it from a profile.
\<close>

definition profile_score :: "user_profile \<Rightarrow> item \<Rightarrow> match_score" where
  "profile_score p =
     comprehensive_match_score (lowered_nonempty (favorite_genres p))
       (lowered_nonempty (favorite_actors p)) (lower (language_preference p))"

text \<open>
  The post-filter and boost by user profile (source lines 346-396), called \<open>rerank\<close> in
  the specification: nothing happens without a profile; with one, the disliked genres
  are dropped and the rest is sorted by descending match score.
\<close>

definition rerank :: "user_profile option \<Rightarrow> item list \<Rightarrow> item list" where
  "rerank profile context =
     (case profile of
        None \<Rightarrow> context
      | Some p \<Rightarrow>
          sort_reverse (profile_score p)
            (drop_disliked (lowered_nonempty (disliked_genres p)) context))"



definition hit :: "string \<Rightarrow> real \<Rightarrow> search_result" where
  "hit ttl sc = \<lparr>payload = Some [(''title'', ttl)], score = sc\<rparr>"


section \<open>Titles already recommended (services/langchain\_service.py, lines 253-286)\<close>













section \<open>Scope classifier (services/query\_parser\_service.py)\<close>



text \<open>
  The four \<^verbatim>\<open>movie_inquiry_patterns\<close>:

  \<^verbatim>\<open>\b(tell\s+me\s+more\s+about|tell\s+me\s+about|what\s+is|what\'?s|who\s+is|who\'?s|describe|explain)\b\<close>

  \<^verbatim>\<open>\b(about|info|information|details|detail)\b.*\b(movie|film|show|series|tv)\b\<close>

  \<^verbatim>\<open>\b(movie|film|show|series|tv)\b.*\b(about|info|information|details)\b\<close>

  \<^verbatim>\<open>\b(find|search|look\s+for)\b.*\b(movie|film|show|series)\b\<close>
\<close>

definition apostrophe :: char where
  "apostrophe = CHR 0x27"








section \<open>Response templates (services/response\_templates.py)\<close>




















section \<open>Query normalizer (services/qdrant\_service.py)\<close>

text \<open>
  The values that \<^verbatim>\<open>json.loads\<close> returns.  A dictionary is an association list with
  distinct keys in insertion order.
\<close>

datatype json =
    JNull | JBool bool | JNumber int | JString string
  | JArray "json list" | JObject "(string \<times> json) list"

type_synonym filters = "(string \<times> json) list"

text \<open>\<^verbatim>\<open>d[key] = value\<close> and \<^verbatim>\<open>d.get(key, default)\<close> on such a dictionary.\<close>

definition dict_set :: "string \<Rightarrow> json \<Rightarrow> filters \<Rightarrow> filters" where
  "dict_set key v d = AList.update key v d"

definition json_get :: "(string \<times> json) list \<Rightarrow> string \<Rightarrow> json \<Rightarrow> json" where
  "json_get d key dflt = (case map_of d key of None \<Rightarrow> dflt | Some v \<Rightarrow> v)"

text \<open>
  The country patterns of \<^verbatim>\<open>parse_query_regex\<close>, each with its country:

  \<^verbatim>\<open>\b(?:phim\s+)?X\b\<close> for three Vietnamese adjectives \<open>X\<close> (American, Vietnamese,
  Korean), then \<^verbatim>\<open>\b(?:american|usa|us)\b\<close>, \<^verbatim>\<open>\b(?:korean|korea)\b\<close>,
  \<^verbatim>\<open>\b(?:vietnamese|vietnam)\b\<close>, \<^verbatim>\<open>\b(?:japanese|japan)\b\<close>, \<^verbatim>\<open>\b(?:chinese|china)\b\<close>.
\<close>

definition country_patterns :: "(regex \<times> string) list" where
  "country_patterns =
     [(seqs [WordB, Opt (seqs [lit ''phim'', Plus Space]), lit (''m'' @ [CHR 0xE1, CHR 0xBB, CHR 0xB9]), WordB],
       ''United States''),
      (seqs [WordB, Opt (seqs [lit ''phim'', Plus Space]), lit (''vi'' @ [CHR 0xE1, CHR 0xBB, CHR 0x87] @ ''t''), WordB],
       ''Vietnam''),
      (seqs [WordB, Opt (seqs [lit ''phim'', Plus Space]), lit (''h'' @ [CHR 0xC3, CHR 0xA0] @ ''n''), WordB],
       ''South Korea''),
      (seqs [WordB, alts [lit ''american'', lit ''usa'', lit ''us''], WordB], ''United States''),
      (seqs [WordB, alts [lit ''korean'', lit ''korea''], WordB], ''South Korea''),
      (seqs [WordB, alts [lit ''vietnamese'', lit ''vietnam''], WordB], ''Vietnam''),
      (seqs [WordB, alts [lit ''japanese'', lit ''japan''], WordB], ''Japan''),
      (seqs [WordB, alts [lit ''chinese'', lit ''china''], WordB], ''China'')]"

text \<open>\<^verbatim>\<open>\b(?:movies?|phim)\b\<close> and \<^verbatim>\<open>\b(?:tv\s*shows?|series)\b\<close>\<close>

definition movie_type_pattern :: regex where
  "movie_type_pattern =
     seqs [WordB, alts [Seq (lit ''movie'') (Opt (One (Lit CHR ''s''))), lit ''phim''], WordB]"

definition tv_type_pattern :: regex where
  "tv_type_pattern =
     seqs [WordB,
           alts [seqs [lit ''tv'', Star Space, lit ''show'', Opt (One (Lit CHR ''s''))],
                 lit ''series''],
           WordB]"

text \<open>\<^verbatim>\<open>(?:X\s+)?(\d{4})\<close>, where \<open>X\<close> is the Vietnamese word for year.\<close>

definition year_pattern :: regex where
  "year_pattern =
     seqs [Opt (seqs [lit (''n'' @ [CHR 0xC4, CHR 0x83] @ ''m''), Plus Space]),
           Group 1 (seqs [One Digit, One Digit, One Digit, One Digit])]"

text \<open>
  The genre patterns, each \<^verbatim>\<open>\b(?:X|name)\b\<close> with a Vietnamese word \<open>X\<close> for the first
  four: action, comedy, horror, romance; then \<^verbatim>\<open>\b(?:drama)\b\<close> and
  \<^verbatim>\<open>\b(?:thriller)\b\<close>.
\<close>

definition genre_patterns :: "(regex \<times> string) list" where
  "genre_patterns =
     [(seqs [WordB, alts [lit (''h'' @ [CHR 0xC3, CHR 0xA0] @ ''nh '' @ [CHR 0xC4, CHR 0x91, CHR 0xE1, CHR 0xBB, CHR 0x99] @ ''ng''), lit ''action''], WordB], ''Action''),
      (seqs [WordB, alts [lit (''h'' @ [CHR 0xC3, CHR 0xA0] @ ''i''), lit ''comedy''], WordB], ''Comedy''),
      (seqs [WordB, alts [lit (''kinh d'' @ [CHR 0xE1, CHR 0xBB, CHR 0x8B]), lit ''horror''], WordB], ''Horror''),
      (seqs [WordB, alts [lit (''t'' @ [CHR 0xC3, CHR 0xAC] @ ''nh c'' @ [CHR 0xE1, CHR 0xBA, CHR 0xA3] @ ''m''), lit ''romance''], WordB], ''Romance''),
      (seqs [WordB, lit ''drama'', WordB], ''Drama''),
      (seqs [WordB, lit ''thriller'', WordB], ''Thriller'')]"

text \<open>
  The loops \<^verbatim>\<open>for pattern, value in patterns: if re.search(...): ...; break\<close>: the value
  of the first pattern that matches.
\<close>

fun first_match :: "(regex \<times> string) list \<Rightarrow> string \<Rightarrow> string option" where
  "first_match [] text = None"
| "first_match ((pattern, v) # patterns) text =
     (if re_search pattern text \<noteq> None then Some v else first_match patterns text)"

text \<open>
  \<^verbatim>\<open>parse_query_regex(query)\<close>, the local fall-back parser.  The only operation that can
  raise is \<^verbatim>\<open>int(year_match.group(1))\<close>.
\<close>

definition parse_query_regex :: "string \<Rightarrow> error + filters" where
  "parse_query_regex query =
     (let parsed0 = [];
          parsed1 = (case first_match country_patterns (lower query) of
                       None \<Rightarrow> parsed0
                     | Some c \<Rightarrow> dict_set ''country'' (JString c) parsed0);
          parsed2 = (if re_search movie_type_pattern (lower query) \<noteq> None
                       then dict_set ''type'' (JString ''Movie'') parsed1
                     else if re_search tv_type_pattern (lower query) \<noteq> None
                       then dict_set ''type'' (JString ''TV Show'') parsed1
                     else parsed1)
      in case (case re_search year_pattern query of
                 None \<Rightarrow> Inr parsed2
               | Some (m, rest, gs) \<Rightarrow>
                   (case py_int (group1 gs) of
                      Inl e \<Rightarrow> Inl e
                    | Inr y \<Rightarrow> Inr (dict_set ''year'' (JNumber (int y)) parsed2))) of
           Inl e \<Rightarrow> Inl e
         | Inr parsed3 \<Rightarrow>
             Inr (case first_match genre_patterns (lower query) of
                    None \<Rightarrow> parsed3
                  | Some g \<Rightarrow> dict_set ''genre'' (JString g) parsed3))"

text \<open>
  The \<^verbatim>\<open>try\<close> block of \<^verbatim>\<open>parse_query_with_llm\<close>.  The remote call, with the reading of
  \<^verbatim>\<open>response.choices[0].message.content\<close>, is the parameter \<open>chat\<close>: it gets the user
  prompt (the system prompt is fixed prose) and raises or returns the content, which may
  be \<open>None\<close>.  \<^verbatim>\<open>json.loads\<close> is the parameter \<open>json_loads\<close>.  Each step that can raise
  has its error branch; logging is left out, except for the \<^verbatim>\<open>join\<close> inside a log
  message, which raises on a value that is no collection of strings.
\<close>

definition nth_or_raise :: "'a list \<Rightarrow> nat \<Rightarrow> error + 'a" where
  "nth_or_raise xs i = (if i < length xs then Inr (xs ! i) else Inl IndexError)"

definition strip_markdown :: "string \<Rightarrow> error + string" where
  "strip_markdown llm_output =
     (if str_in ''```json'' llm_output
      then (case nth_or_raise (split llm_output ''```json'') 1 of
              Inl e \<Rightarrow> Inl e
            | Inr part \<Rightarrow>
                (case nth_or_raise (split part ''```'') 0 of
                   Inl e \<Rightarrow> Inl e
                 | Inr inner \<Rightarrow> Inr (strip inner)))
      else if str_in ''```'' llm_output
      then (case nth_or_raise (split llm_output ''```'') 1 of
              Inl e \<Rightarrow> Inl e
            | Inr part \<Rightarrow> Inr (strip part))
      else Inr llm_output)"

text \<open>\<^verbatim>\<open>', '.join(v)\<close> raises unless \<open>v\<close> is a string or a collection of strings.\<close>

fun joinable :: "json \<Rightarrow> bool" where
  "joinable (JString s) = True"
| "joinable (JArray vs) = list_all (\<lambda>v. case v of JString s \<Rightarrow> True | _ \<Rightarrow> False) vs"
| "joinable (JObject kvs) = True"
| "joinable v = False"

definition read_parsed :: "string \<Rightarrow> json \<Rightarrow> error + json \<times> filters" where
  "read_parsed query parsed =
     (case parsed of
        JObject d \<Rightarrow>
          (let corrected_query = json_get d ''corrected_query'' (JString query);
               optimized_summary = json_get d ''optimized_summary'' (JString query);
               filters = json_get d ''filters'' (JObject []);
               matched_fields = json_get d ''matched_fields'' (JArray []);
               search_intent = json_get d ''search_intent'' (JString [])
           in if \<not> joinable matched_fields then Inl TypeError
              else (case filters of
                      JObject fs \<Rightarrow> Inr (optimized_summary, filter (\<lambda>(k, v). v \<noteq> JNull) fs)
                    | _ \<Rightarrow> Inl AttributeError))
      | _ \<Rightarrow> Inl AttributeError)"

definition llm_attempt ::
  "(string \<Rightarrow> error + string option) \<Rightarrow> (string \<Rightarrow> error + json) \<Rightarrow> string
   \<Rightarrow> error + json \<times> filters" where
  "llm_attempt chat json_loads query =
     (let user_prompt = ''Process this query: '' @ [apostrophe] @ query @ [apostrophe] in
      case chat user_prompt of
        Inl e \<Rightarrow> Inl e
      | Inr None \<Rightarrow> Inl AttributeError
      | Inr (Some content) \<Rightarrow>
          (case strip_markdown (strip content) of
             Inl e \<Rightarrow> Inl e
           | Inr llm_output \<Rightarrow>
               (case json_loads llm_output of
                  Inl e \<Rightarrow> Inl e
                | Inr parsed \<Rightarrow> read_parsed query parsed)))"

text \<open>
  \<^verbatim>\<open>parse_query_with_llm(query)\<close>: \<^verbatim>\<open>except Exception\<close> catches every error of the
  \<^verbatim>\<open>try\<close> block and falls back to the local parser, whose own errors are not caught.
\<close>

definition parse_query_with_llm ::
  "(string \<Rightarrow> error + string option) \<Rightarrow> (string \<Rightarrow> error + json) \<Rightarrow> string
   \<Rightarrow> error + json \<times> filters" where
  "parse_query_with_llm chat json_loads query =
     (case llm_attempt chat json_loads query of
        Inr result \<Rightarrow> Inr result
      | Inl e \<Rightarrow>
          (case parse_query_regex query of
             Inl e' \<Rightarrow> Inl e'
           | Inr filters \<Rightarrow> Inr (JString query, filters)))"


section \<open>Properties of the conversation memory\<close>

lemma max_history_add_message: "max_history (add_message mem s q a) = max_history mem"
  by (simp add: add_message_def Let_def)

lemma max_history_add_messages: "max_history (add_messages mem calls) = max_history mem"
  by (induction mem calls rule: add_messages.induct) (simp_all add: max_history_add_message)

lemma slice_from_neg: "0 < m \<Longrightarrow> slice_from (- m) xs = most_recent (nat m) xs"
  by (simp add: slice_from_def most_recent_def max_def nat_diff_distrib')

lemma history_add_message_same:
  assumes "0 < max_history mem"
  shows "fst (get_history (add_message mem s q a) s)
         = most_recent (nat (max_history mem)) (fst (get_history mem s) @ [(q, a)])"
proof -
  let ?h = "fst (get_history mem s) @ [(q, a)]"
  show ?thesis
  proof (cases "int (length ?h) > max_history mem")
    case True
    then show ?thesis using assms
      by (auto simp: add_message_def get_history_def Let_def slice_from_neg split: option.splits)
  next
    case False
    then have "length ?h - nat (max_history mem) = 0" by linarith
    then have "most_recent (nat (max_history mem)) ?h = ?h"
      by (simp add: most_recent_def del: length_append)
    with False show ?thesis
      by (auto simp: add_message_def get_history_def Let_def split: option.splits)
  qed
qed

lemma history_add_message_other:
  "s' \<noteq> s \<Longrightarrow> fst (get_history (add_message mem s q a) s') = fst (get_history mem s')"
  by (auto simp: add_message_def get_history_def Let_def split: option.splits)

lemma most_recent_append:
  "most_recent n (most_recent n xs @ ys) = most_recent n (xs @ ys)"
proof (cases "n \<le> length xs")
  case True
  then have "length xs + length ys - (length xs - n + n) + (length xs - n)
             = length xs + length ys - n"
    by simp
  then show ?thesis
    by (simp add: most_recent_def)
next
  case False
  then show ?thesis
    by (simp add: most_recent_def)
qed

lemma history_add_messages:
  assumes "0 < max_history mem"
  shows "fst (get_history (add_messages mem calls) sid)
         = (if turns_of sid calls = [] then fst (get_history mem sid)
            else most_recent (nat (max_history mem)) (fst (get_history mem sid) @ turns_of sid calls))"
  using assms
proof (induction mem calls rule: add_messages.induct)
  case (1 mem)
  show ?case by (simp add: turns_of_def)
next
  case (2 mem s q a calls)
  let ?mem' = "add_message mem s q a"
  have pos: "0 < max_history ?mem'" using "2.prems" by (simp add: max_history_add_message)
  note IH = "2.IH"[OF pos]
  show ?case
  proof (cases "s = sid")
    case True
    have h': "fst (get_history ?mem' sid)
              = most_recent (nat (max_history mem)) (fst (get_history mem sid) @ [(q, a)])"
      using history_add_message_same[OF "2.prems"] True by simp
    have t: "turns_of sid ((s, q, a) # calls) = (q, a) # turns_of sid calls"
      using True by (simp add: turns_of_def)
    show ?thesis
      using IH h' t most_recent_append[of "nat (max_history mem)" "fst (get_history mem sid) @ [(q, a)]" "turns_of sid calls"]
        most_recent_append[of "nat (max_history mem)" "fst (get_history mem sid) @ [(q, a)]" "[]"]
      by (simp add: max_history_add_message)
  next
    case False
    have t: "turns_of sid ((s, q, a) # calls) = turns_of sid calls"
      using False by (simp add: turns_of_def)
    show ?thesis
      using IH t history_add_message_other[of sid s mem q a] False
      by (simp add: max_history_add_message)
  qed
qed

lemma history_new_memory: "fst (get_history (new_ConversationMemory m) sid) = []"
  by (simp add: get_history_def new_ConversationMemory_def)

text \<open>
  C3.  Starting from the store made by \<^verbatim>\<open>get_memory_service()\<close> (cap 10), after any
  sequence of \<^verbatim>\<open>add_message\<close> calls (to any sessions, interleaved), the history of every
  session id has at most 10 turns and is exactly the most recent \<open>min n 10\<close> of the \<open>n\<close>
  turns added to that session, oldest first.
\<close>

theorem add_message_keeps_last_10:
  "fst (get_history (add_messages get_memory_service calls) sid)
     = most_recent (min (length (turns_of sid calls)) 10) (turns_of sid calls)
   \<and> length (fst (get_history (add_messages get_memory_service calls) sid))
     = min (length (turns_of sid calls)) 10
   \<and> length (fst (get_history (add_messages get_memory_service calls) sid)) \<le> 10"
proof -
  have pos: "0 < max_history get_memory_service"
    by (simp add: get_memory_service_def new_ConversationMemory_def)
  have m: "nat (max_history get_memory_service) = 10"
    by (simp add: get_memory_service_def new_ConversationMemory_def)
  have e: "fst (get_history get_memory_service sid) = []"
    by (simp add: get_memory_service_def history_new_memory)
  have "fst (get_history (add_messages get_memory_service calls) sid)
          = most_recent 10 (turns_of sid calls)"
    using history_add_messages[OF pos, of calls sid] m e
    by (auto simp: most_recent_def)
  then show ?thesis
    by (auto simp: most_recent_def min_def)
qed

text \<open>
  The scenario of C3: twelve messages to one session leave exactly the last ten, oldest
  first.
\<close>

theorem add_message_keeps_last_10_witness:
  "fst (get_history (add_messages get_memory_service
        (map (\<lambda>i. (''s'', ''q'' @ [char_of (i::nat)], ''a'' @ [char_of i])) [65..<77])) ''s'')
   = map (\<lambda>i. (''q'' @ [char_of (i::nat)], ''a'' @ [char_of i])) [67..<77]"
  using add_message_keeps_last_10
    [of "map (\<lambda>i. (''s'', ''q'' @ [char_of (i::nat)], ''a'' @ [char_of i])) [65..<77]" "''s''"]
  by (simp add: turns_of_def most_recent_def upt_rec comp_def)

text \<open>
  C10.  For a session id that is absent from the store, \<^verbatim>\<open>get_history\<close> returns the empty
  list and \<^verbatim>\<open>clear_session\<close> returns the store as it was.  For every session id (absent or
  not) \<^verbatim>\<open>get_history\<close> leaves the store unchanged and \<^verbatim>\<open>clear_session\<close> adds no key, while
  \<^verbatim>\<open>add_message\<close> makes its session id a key: only \<^verbatim>\<open>add_message\<close> creates entries.  No
  operation has an error branch.
\<close>

theorem absent_session_is_harmless:
  "(conversations mem sid = None \<longrightarrow>
       get_history mem sid = ([], mem) \<and> clear_session mem sid = mem)
   \<and> snd (get_history mem s) = mem
   \<and> dom (conversations (clear_session mem s)) \<subseteq> dom (conversations mem)
   \<and> dom (conversations (add_message mem s q a)) = insert s (dom (conversations mem))"
  by (auto simp: get_history_def clear_session_def add_message_def Let_def
           split: option.splits if_splits)

theorem absent_session_is_harmless_witness:
  "conversations (add_message get_memory_service ''a'' ''hi'' ''hello'') ''b'' = None
   \<and> get_history (add_message get_memory_service ''a'' ''hi'' ''hello'') ''b''
       = ([], add_message get_memory_service ''a'' ''hi'' ''hello'')
   \<and> clear_session (add_message get_memory_service ''a'' ''hi'' ''hello'') ''b''
       = add_message get_memory_service ''a'' ''hi'' ''hello''"
proof -
  have h: "conversations (add_message get_memory_service ''a'' ''hi'' ''hello'') ''b'' = None"
    by (simp add: add_message_def get_memory_service_def new_ConversationMemory_def Let_def)
  show ?thesis
    using h absent_session_is_harmless
      [of "add_message get_memory_service ''a'' ''hi'' ''hello''" "''b''" "''b''" "''q''" "''a''"]
    by blast
qed


section \<open>Properties of strings and of the matcher\<close>




lemma in_matches_Seq:
  "x \<in> set (matches (Seq r1 r2) prev rest gs) \<longleftrightarrow>
     (\<exists>m1 rest1 gs1 m2 rest2 gs2.
        (m1, rest1, gs1) \<in> set (matches r1 prev rest gs)
        \<and> (m2, rest2, gs2) \<in> set (matches r2 (prev_after prev m1) rest1 gs1)
        \<and> x = (m1 @ m2, rest2, gs2))"
  by force

lemma group_free_keeps_groups:
  "group_free r \<Longrightarrow> (m, rest', gs') \<in> set (matches r prev rest gs) \<Longrightarrow> gs' = gs"
proof (induction r arbitrary: m rest' gs' prev rest gs)
  case (Seq r1 r2)
  from Seq.prems(2) obtain m1 rest1 gs1 m2 where
    a: "(m1, rest1, gs1) \<in> set (matches r1 prev rest gs)" and
    b: "(m2, rest', gs') \<in> set (matches r2 (prev_after prev m1) rest1 gs1)"
    unfolding in_matches_Seq by blast
  from Seq.prems(1) have "group_free r1" "group_free r2" by simp_all
  with Seq.IH a b show ?case by blast
next
  case (Alt r1 r2)
  then show ?case by auto
next
  case (Opt r)
  then show ?case by auto
qed (auto split: list.splits if_splits)

lemma search_from_in_matches:
  "search_from r prev s = Some x \<Longrightarrow> \<exists>prev' s'. x \<in> set (matches r prev' s' [])"
proof (induction s arbitrary: prev)
  case Nil
  show ?case
  proof (cases "matches r prev [] []")
    case Nil
    with \<open>search_from r prev [] = Some x\<close> show ?thesis by simp
  next
    case (Cons y ys)
    with \<open>search_from r prev [] = Some x\<close> have "x = y" by simp
    with Cons have "x \<in> set (matches r prev [] [])" by simp
    then show ?thesis by blast
  qed
next
  case (Cons c cs)
  show ?case
  proof (cases "matches r prev (c # cs) []")
    case Nil
    with Cons.prems have "search_from r (Some c) cs = Some x" by simp
    then show ?thesis by (rule Cons.IH)
  next
    case (Cons y ys)
    with Cons.prems have "x = y" by simp
    with Cons have "x \<in> set (matches r prev (c # cs) [])" by simp
    then show ?thesis by blast
  qed
qed

lemma py_int_digits: "s \<noteq> [] \<Longrightarrow> list_all is_digit s \<Longrightarrow> \<exists>n. py_int s = Inr n"
  by (simp add: py_int_def)


section \<open>Properties of exclusion and re-ranking\<close>













lemma rerank_without_profile: "rerank None context = context"
  by (simp add: rerank_def)

lemma format_context_excludes:
  "c \<in> set (format_context excluded results) \<Longrightarrow> lower (title c) \<notin> excluded"
  by (induction excluded results rule: format_context.induct)
    (auto simp: Let_def context_entry_def split: option.splits if_splits)

lemma merge_results_Cons:
  "merge_results ex ctx (r # rs) =
     (if 5 \<le> length ctx then ctx
      else case payload r of
        None \<Rightarrow> merge_results ex ctx rs
      | Some pl \<Rightarrow>
          if pl = [] \<or> lower (dict_get pl ''title'' ''Unknown'') \<in> ex
             \<or> list_ex (\<lambda>c. lower (title c) = lower (dict_get pl ''title'' ''Unknown'')) ctx
          then merge_results ex ctx rs
          else merge_results ex
                 (ctx @ [context_entry pl (dict_get pl ''title'' ''Unknown'') (score r)]) rs)"
  by (simp add: Let_def split: option.splits)

lemma title_context_entry: "title (context_entry pl ttl sc) = ttl"
  by (simp add: context_entry_def)

lemma merge_results_step:
  obtains (stop) "merge_results ex ctx (r # rs) = ctx"
  | (skip) "merge_results ex ctx (r # rs) = merge_results ex ctx rs"
  | (add) e where "lower (title e) \<notin> ex"
      "\<forall>c \<in> set ctx. lower (title c) \<noteq> lower (title e)"
      "merge_results ex ctx (r # rs) = merge_results ex (ctx @ [e]) rs"
proof (cases "5 \<le> length ctx")
  case True
  then show ?thesis using stop by simp
next
  case False
  show ?thesis
  proof (cases "payload r")
    case None
    with False show ?thesis using skip by simp
  next
    case (Some pl)
    let ?ttl = "dict_get pl ''title'' ''Unknown''"
    show ?thesis
    proof (cases "pl = [] \<or> lower ?ttl \<in> ex \<or> list_ex (\<lambda>c. lower (title c) = lower ?ttl) ctx")
      case True
      with False Some show ?thesis using skip
        by (simp only: merge_results_Cons) simp
    next
      case no: False
      then have a: "lower (title (context_entry pl ?ttl (score r))) \<notin> ex"
        and b: "\<forall>c \<in> set ctx. lower (title c) \<noteq> lower (title (context_entry pl ?ttl (score r)))"
        by (simp_all add: title_context_entry list_ex_iff)
      have "merge_results ex ctx (r # rs)
              = merge_results ex (ctx @ [context_entry pl ?ttl (score r)]) rs"
        using False Some no by (simp only: merge_results_Cons) simp
      with a b show ?thesis using add by blast
    qed
  qed
qed

lemma merge_results_excludes:
  "c \<in> set (merge_results excluded ctx results)
   \<Longrightarrow> c \<in> set ctx \<or> lower (title c) \<notin> excluded"
proof (induction results arbitrary: ctx)
  case Nil
  then show ?case by simp
next
  case (Cons r rs)
  show ?case
  proof (cases rule: merge_results_step[of excluded ctx r rs])
    case stop
    with Cons.prems show ?thesis by simp
  next
    case skip
    with Cons.prems Cons.IH[of ctx] show ?thesis by simp
  next
    case (add e)
    with Cons.prems Cons.IH[of "ctx @ [e]"] show ?thesis by auto
  qed
qed

lemma merge_results_distinct:
  "distinct (map (\<lambda>c. lower (title c)) ctx)
   \<Longrightarrow> distinct (map (\<lambda>c. lower (title c)) (merge_results excluded ctx results))"
proof (induction results arbitrary: ctx)
  case Nil
  then show ?case by simp
next
  case (Cons r rs)
  show ?case
  proof (cases rule: merge_results_step[of excluded ctx r rs])
    case stop
    with Cons.prems show ?thesis by simp
  next
    case skip
    with Cons.prems Cons.IH[of ctx] show ?thesis by simp
  next
    case (add e)
    from add(2) Cons.prems have "distinct (map (\<lambda>c. lower (title c)) (ctx @ [e]))"
      by auto
    with add(3) Cons.IH[of "ctx @ [e]"] show ?thesis by simp
  qed
qed

lemma merge_results_keeps_context:
  "prefix ctx (merge_results excluded ctx results)"
proof (induction results arbitrary: ctx)
  case Nil
  show ?case by simp
next
  case (Cons r rs)
  show ?case
  proof (cases rule: merge_results_step[of excluded ctx r rs])
    case stop
    then show ?thesis by simp
  next
    case skip
    with Cons.IH[of ctx] show ?thesis by simp
  next
    case (add e)
    have "prefix ctx (merge_results excluded (ctx @ [e]) rs)"
      using Cons.IH[of "ctx @ [e]"] by (rule append_prefixD)
    with add(3) show ?thesis by simp
  qed
qed

text \<open>
  C7.  Every loop drops the excluded titles (\<open>format_context_excludes\<close>,
  \<open>merge_results_excludes\<close>), and the two merge loops never add a title that
  \<^verbatim>\<open>context\<close> already has (\<open>merge_results_distinct\<close>).  The first loop has no such
  check: two search results with the same title both enter \<^verbatim>\<open>context\<close>, and the later
  loops keep them (\<open>merge_results_keeps_context\<close>).
\<close>

theorem format_context_keeps_duplicate_titles:
  "map title (format_context {} [hit ''Dune'' 0.9, hit ''Dune'' 0.8]) = [''Dune'', ''Dune'']"
  by (simp add: hit_def dict_get_def context_entry_def)


section \<open>Properties of the title extraction\<close>










section \<open>Properties of the scope classifier\<close>










section \<open>Properties of the prompt builder\<close>









section \<open>Properties of the query normalizer\<close>

lemma year_pattern_group:
  assumes "x \<in> set (matches year_pattern prev s [])"
  shows "\<exists>g. snd (snd x) = [(1, g)] \<and> g \<noteq> [] \<and> list_all is_digit g"
proof -
  define head where "head = Opt (seqs [lit (''n'' @ [CHR 0xC4, CHR 0x83] @ ''m''), Plus Space])"
  define four where "four = seqs [One Digit, One Digit, One Digit, One Digit]"
  have gf: "group_free head"
    by (simp add: head_def seqs_def lit_def)
  have yp: "year_pattern = Seq head (Seq (Group 1 four) Eps)"
    by (simp add: year_pattern_def head_def four_def seqs_def)
  from assms obtain m1 rest1 gs1 m2 rest2 gs2 where
    a: "(m1, rest1, gs1) \<in> set (matches head prev s [])" and
    b: "(m2, rest2, gs2) \<in> set (matches (Seq (Group 1 four) Eps) (prev_after prev m1) rest1 gs1)" and
    x: "x = (m1 @ m2, rest2, gs2)"
    unfolding yp in_matches_Seq by blast
  from gf a have gs1: "gs1 = []" by (rule group_free_keeps_groups)
  from b obtain ma ra ga where
    c: "(ma, ra, ga) \<in> set (matches four (prev_after prev m1) rest1 gs1)" and
    d: "gs2 = (1, ma) # ga"
    by auto
  from c have ga: "ga = gs1" and dg: "ma \<noteq> [] \<and> list_all is_digit ma"
    by (auto simp: four_def seqs_def split: list.splits if_splits)
  with x d gs1 show ?thesis by simp
qed


lemma parse_query_regex_returns: "\<exists>filters. parse_query_regex query = Inr filters"
proof (cases "re_search year_pattern query")
  case None
  then show ?thesis
    by (simp add: parse_query_regex_def Let_def)
next
  case (Some x)
  obtain m rest gs where x: "x = (m, rest, gs)"
    by (cases x) auto
  from Some x obtain prev' s' where "(m, rest, gs) \<in> set (matches year_pattern prev' s' [])"
    unfolding re_search_def using search_from_in_matches by blast
  then obtain g where "gs = [(1, g)]" "g \<noteq> []" "list_all is_digit g"
    using year_pattern_group by fastforce
  then obtain y where "py_int (group1 gs) = Inr y"
    using py_int_digits[of g] by (auto simp: group1_def group_def)
  with Some x show ?thesis
    by (simp add: parse_query_regex_def Let_def)
qed

text \<open>
  C4.  Whenever the \<^verbatim>\<open>try\<close> block fails (with any error \<open>e\<close>),
  \<^verbatim>\<open>parse_query_with_llm\<close> returns the original query with the filters of
  \<^verbatim>\<open>parse_query_regex\<close>, which itself never raises; so no call of
  \<^verbatim>\<open>parse_query_with_llm\<close> ends in an error.  The block fails, in particular, when the
  remote call raises, when the content is missing, and when \<^verbatim>\<open>json.loads\<close> rejects the
  output.
\<close>

theorem llm_failure_falls_back:
  "(llm_attempt chat json_loads query = Inl e \<longrightarrow>
      (\<exists>filters. parse_query_regex query = Inr filters
         \<and> parse_query_with_llm chat json_loads query = Inr (JString query, filters)))
   \<and> (\<exists>result. parse_query_with_llm chat json_loads query = Inr result)
   \<and> (chat (''Process this query: '' @ [apostrophe] @ query @ [apostrophe]) = Inl e \<longrightarrow>
        llm_attempt chat json_loads query = Inl e)
   \<and> (chat (''Process this query: '' @ [apostrophe] @ query @ [apostrophe]) = Inr None \<longrightarrow>
        llm_attempt chat json_loads query = Inl AttributeError)
   \<and> (\<forall>content llm_output.
        chat (''Process this query: '' @ [apostrophe] @ query @ [apostrophe]) = Inr (Some content)
        \<and> strip_markdown (strip content) = Inr llm_output
        \<and> json_loads llm_output = Inl e \<longrightarrow>
        llm_attempt chat json_loads query = Inl e)"
proof -
  obtain filters where f: "parse_query_regex query = Inr filters"
    using parse_query_regex_returns by blast
  have a: "llm_attempt chat json_loads query = Inl e \<longrightarrow>
      (\<exists>filters. parse_query_regex query = Inr filters
         \<and> parse_query_with_llm chat json_loads query = Inr (JString query, filters))"
    using f by (simp add: parse_query_with_llm_def)
  have b: "\<exists>result. parse_query_with_llm chat json_loads query = Inr result"
    using f by (cases "llm_attempt chat json_loads query") (simp_all add: parse_query_with_llm_def)
  have c: "chat (''Process this query: '' @ [apostrophe] @ query @ [apostrophe]) = Inl e \<longrightarrow>
        llm_attempt chat json_loads query = Inl e"
    by (simp add: llm_attempt_def Let_def)
  have d: "chat (''Process this query: '' @ [apostrophe] @ query @ [apostrophe]) = Inr None \<longrightarrow>
        llm_attempt chat json_loads query = Inl AttributeError"
    by (simp add: llm_attempt_def Let_def)
  have j: "\<forall>content llm_output.
        chat (''Process this query: '' @ [apostrophe] @ query @ [apostrophe]) = Inr (Some content)
        \<and> strip_markdown (strip content) = Inr llm_output
        \<and> json_loads llm_output = Inl e \<longrightarrow>
        llm_attempt chat json_loads query = Inl e"
    by (simp add: llm_attempt_def Let_def)
  from a b c d j show ?thesis by (intro conjI)
qed

text \<open>
  A remote call that times out, and one that answers with text that is no JSON: both
  give the query back with the filters of the local parser.
\<close>

theorem llm_failure_falls_back_witness:
  "llm_attempt (\<lambda>p. Inl (RemoteError ''timeout'')) (\<lambda>s. Inl JSONDecodeError)
       ''Korean horror movies 2020'' = Inl (RemoteError ''timeout'')
   \<and> parse_query_with_llm (\<lambda>p. Inl (RemoteError ''timeout'')) (\<lambda>s. Inl JSONDecodeError)
       ''Korean horror movies 2020''
     = Inr (JString ''Korean horror movies 2020'',
            [(''country'', JString ''South Korea''), (''type'', JString ''Movie''),
             (''year'', JNumber 2020), (''genre'', JString ''Horror'')])
   \<and> llm_attempt (\<lambda>p. Inr (Some ''Sorry, no idea'')) (\<lambda>s. Inl JSONDecodeError)
       ''tv shows from japan'' = Inl JSONDecodeError
   \<and> parse_query_with_llm (\<lambda>p. Inr (Some ''Sorry, no idea'')) (\<lambda>s. Inl JSONDecodeError)
       ''tv shows from japan''
     = Inr (JString ''tv shows from japan'',
            [(''country'', JString ''Japan''), (''type'', JString ''TV Show'')])"
proof -
  have a: "llm_attempt (\<lambda>p. Inl (RemoteError ''timeout'')) (\<lambda>s. Inl JSONDecodeError)
       ''Korean horror movies 2020'' = Inl (RemoteError ''timeout'')"
    by (simp add: llm_attempt_def Let_def)
  have b: "parse_query_regex ''Korean horror movies 2020''
     = Inr [(''country'', JString ''South Korea''), (''type'', JString ''Movie''),
            (''year'', JNumber 2020), (''genre'', JString ''Horror'')]"
    by code_simp
  have c: "llm_attempt (\<lambda>p. Inr (Some ''Sorry, no idea'')) (\<lambda>s. Inl JSONDecodeError)
       ''tv shows from japan'' = Inl JSONDecodeError"
    by code_simp
  have d: "parse_query_regex ''tv shows from japan''
     = Inr [(''country'', JString ''Japan''), (''type'', JString ''TV Show'')]"
    by code_simp
  have "parse_query_with_llm (\<lambda>p. Inl (RemoteError ''timeout'')) (\<lambda>s. Inl JSONDecodeError)
       ''Korean horror movies 2020''
     = Inr (JString ''Korean horror movies 2020'',
            [(''country'', JString ''South Korea''), (''type'', JString ''Movie''),
             (''year'', JNumber 2020), (''genre'', JString ''Horror'')])"
    using a b llm_failure_falls_back
      [of "\<lambda>p. Inl (RemoteError ''timeout'')" "\<lambda>s. Inl JSONDecodeError"
          "''Korean horror movies 2020''" "RemoteError ''timeout''"]
    by auto
  moreover have "parse_query_with_llm (\<lambda>p. Inr (Some ''Sorry, no idea'')) (\<lambda>s. Inl JSONDecodeError)
       ''tv shows from japan''
     = Inr (JString ''tv shows from japan'',
            [(''country'', JString ''Japan''), (''type'', JString ''TV Show'')])"
    using c d llm_failure_falls_back
      [of "\<lambda>p. Inr (Some ''Sorry, no idea'')" "\<lambda>s. Inl JSONDecodeError"
          "''tv shows from japan''" JSONDecodeError]
    by auto
  ultimately show ?thesis
    using a c by (intro conjI)
qed


end
